theory Spec2Isabelle
  imports Complex_Main
begin

section \<open>Conventions of the embedding\<close>

text \<open>
  The Python sources are embedded function by function. Python floats are read as
  real numbers: rounding and NaN are outside the model, and so is overflow except
  where Python raises an exception for it. The wall clock
  \<^verbatim>\<open>time.time()\<close> is a value handed to each operation; \<^verbatim>\<open>asyncio.sleep(d)\<close>
  moves that clock forward by \<open>d\<close> when \<open>d\<close> is positive and not at all otherwise;
  computation itself takes no time. Exceptions are values of \<open>py_error\<close>.
\<close>

datatype py_error = IndexError | ZeroDivisionError | OverflowError | ValueError | RuntimeError

definition sleep :: "real \<Rightarrow> real \<Rightarrow> real" where
  "sleep d now = (if d > 0 then now + d else now)"

section \<open>utils/rate\_limiter.py\<close>

record RateLimitConfig =
  requests_per_second :: real
  requests_per_minute :: real
  requests_per_hour :: real
  burst_size :: int
  adaptive :: bool
  backoff_factor :: real
  recovery_time :: real
  min_delay :: real
  max_delay :: real

text \<open>The dataclass defaults of \<^verbatim>\<open>RateLimitConfig\<close>.\<close>

definition RateLimitConfig_default :: RateLimitConfig where
  "RateLimitConfig_default =
     \<lparr>requests_per_second = 1, requests_per_minute = 30, requests_per_hour = 1000,
      burst_size = 5, adaptive = True, backoff_factor = 2, recovery_time = 300,
      min_delay = 1 / 2, max_delay = 60\<rparr>"

record RateLimiter =
  config :: RateLimitConfig
  second_window :: "real list"
  minute_window :: "real list"
  hour_window :: "real list"
  current_delay :: real
  consecutive_errors :: int
  last_error_time :: real
  is_blocked :: bool
  block_until :: real

text \<open>\<^verbatim>\<open>RateLimiter.__init__\<close>.\<close>

definition RateLimiter_init :: "RateLimitConfig \<Rightarrow> RateLimiter" where
  "RateLimiter_init cfg =
     \<lparr>config = cfg, second_window = [], minute_window = [], hour_window = [],
      current_delay = min_delay cfg, consecutive_errors = 0, last_error_time = 0,
      is_blocked = False, block_until = 0\<rparr>"

text \<open>\<^verbatim>\<open>_wait_if_blocked\<close>: returns the limiter and the clock after the wait.\<close>

definition wait_if_blocked :: "real \<Rightarrow> RateLimiter \<Rightarrow> RateLimiter \<times> real" where
  "wait_if_blocked now s =
     (if is_blocked s \<and> now < block_until s
      then (s\<lparr>is_blocked := False\<rparr>, sleep (block_until s - now) now)
      else (s, now))"

text \<open>
  One loop of \<^verbatim>\<open>_cleanup_windows\<close>:
  \<^verbatim>\<open>while window and now - window[0] > horizon: window.popleft()\<close>.
\<close>

fun popleft_old :: "real \<Rightarrow> real \<Rightarrow> real list \<Rightarrow> real list" where
  "popleft_old horizon now [] = []"
| "popleft_old horizon now (w # ws) =
     (if now - w > horizon then popleft_old horizon now ws else w # ws)"

definition cleanup_windows :: "real \<Rightarrow> RateLimiter \<Rightarrow> RateLimiter" where
  "cleanup_windows now s =
     s\<lparr>second_window := popleft_old 1 now (second_window s),
       minute_window := popleft_old 60 now (minute_window s),
       hour_window := popleft_old 3600 now (hour_window s)\<rparr>"

text \<open>
  One of the three checks of \<^verbatim>\<open>_enforce_rate_limits\<close>: the delays it appends
  (none or one), or \<open>IndexError\<close> when \<^verbatim>\<open>window[0]\<close> is read on an empty deque
  (possible only when the ceiling is not positive).
\<close>

definition window_delay :: "real \<Rightarrow> real \<Rightarrow> real \<Rightarrow> real list \<Rightarrow> py_error + real list" where
  "window_delay limit horizon now w =
     (if real (length w) \<ge> limit
      then (case w of
              [] \<Rightarrow> Inl IndexError
            | oldest # _ \<Rightarrow>
                (let delay_needed = horizon - (now - oldest)
                 in if delay_needed > 0 then Inr [delay_needed] else Inr []))
      else Inr [])"

text \<open>
  \<^verbatim>\<open>_enforce_rate_limits\<close>: the exception raised (if any), the limiter after the
  cleanup, and the clock after the sleep of the largest delay.
\<close>

definition enforce_rate_limits :: "real \<Rightarrow> RateLimiter \<Rightarrow> py_error option \<times> RateLimiter \<times> real" where
  "enforce_rate_limits now s =
     (let s1 = cleanup_windows now s; cfg = config s1 in
      case window_delay (requests_per_second cfg) 1 now (second_window s1) of
        Inl e \<Rightarrow> (Some e, s1, now)
      | Inr d1 \<Rightarrow>
     (case window_delay (requests_per_minute cfg) 60 now (minute_window s1) of
        Inl e \<Rightarrow> (Some e, s1, now)
      | Inr d2 \<Rightarrow>
     (case window_delay (requests_per_hour cfg) 3600 now (hour_window s1) of
        Inl e \<Rightarrow> (Some e, s1, now)
      | Inr d3 \<Rightarrow>
         (case d1 @ d2 @ d3 of
            [] \<Rightarrow> (None, s1, now)
          | d # ds \<Rightarrow> (None, s1, sleep (foldl max d ds) now)))))"

text \<open>\<^verbatim>\<open>_add_request\<close> and \<^verbatim>\<open>_apply_delay\<close>.\<close>

definition add_request :: "real \<Rightarrow> RateLimiter \<Rightarrow> RateLimiter" where
  "add_request now s =
     s\<lparr>second_window := second_window s @ [now],
       minute_window := minute_window s @ [now],
       hour_window := hour_window s @ [now]\<rparr>"

definition apply_delay :: "real \<Rightarrow> RateLimiter \<Rightarrow> real" where
  "apply_delay now s = (if current_delay s > 0 then sleep (current_delay s) now else now)"

text \<open>
  \<^verbatim>\<open>acquire\<close>, entered when the clock reads \<open>now\<close>: the exception raised (if any),
  the limiter, and the clock when the call returns.
\<close>

definition acquire :: "real \<Rightarrow> RateLimiter \<Rightarrow> py_error option \<times> RateLimiter \<times> real" where
  "acquire now s =
     (case wait_if_blocked now s of (s1, t1) \<Rightarrow>
      (case enforce_rate_limits t1 s1 of
         (Some e, s2, t2) \<Rightarrow> (Some e, s2, t2)
       | (None, s2, t2) \<Rightarrow>
           (let s3 = add_request t2 s2 in (None, s3, apply_delay t2 s3))))"

text \<open>\<^verbatim>\<open>_increase_delay\<close>, \<^verbatim>\<open>_decrease_delay\<close>, \<^verbatim>\<open>_apply_temporary_block\<close>.\<close>

definition increase_delay :: "RateLimiter \<Rightarrow> RateLimiter" where
  "increase_delay s =
     s\<lparr>current_delay := min (current_delay s * backoff_factor (config s)) (max_delay (config s))\<rparr>"

definition decrease_delay :: "RateLimiter \<Rightarrow> py_error option \<times> RateLimiter" where
  "decrease_delay s =
     (if current_delay s > min_delay (config s)
      then (if backoff_factor (config s) = 0 then (Some ZeroDivisionError, s)
            else (None, s\<lparr>current_delay :=
                    max (current_delay s / backoff_factor (config s)) (min_delay (config s))\<rparr>))
      else (None, s))"

definition apply_temporary_block :: "real \<Rightarrow> RateLimiter \<Rightarrow> RateLimiter" where
  "apply_temporary_block now s =
     (let block_duration = min (real_of_int (consecutive_errors s * 30)) (recovery_time (config s))
      in s\<lparr>is_blocked := True, block_until := now + block_duration\<rparr>)"

text \<open>\<^verbatim>\<open>report_error\<close>; \<open>None\<close> is the call without a status code.\<close>

definition critical_statuses :: "int list" where
  "critical_statuses = [429, 503, 521, 522, 523, 524]"

definition status_in :: "int option \<Rightarrow> int list \<Rightarrow> bool" where
  "status_in status_code xs = (case status_code of None \<Rightarrow> False | Some c \<Rightarrow> c \<in> set xs)"

definition report_error :: "int option \<Rightarrow> real \<Rightarrow> RateLimiter \<Rightarrow> RateLimiter" where
  "report_error status_code now s =
     (if \<not> adaptive (config s) then s
      else (let s1 = s\<lparr>consecutive_errors := consecutive_errors s + 1, last_error_time := now\<rparr>
            in if status_in status_code critical_statuses
               then (let s2 = increase_delay s1
                     in if status_code = Some 429 then apply_temporary_block now s2 else s2)
               else s1))"

text \<open>\<^verbatim>\<open>report_success\<close>.\<close>

definition report_success :: "RateLimiter \<Rightarrow> py_error option \<times> RateLimiter" where
  "report_success s =
     (if \<not> adaptive (config s) then (None, s)
      else if consecutive_errors s > 0
      then (let s1 = s\<lparr>consecutive_errors := max 0 (consecutive_errors s - 1)\<rparr>
            in if consecutive_errors s1 = 0 then decrease_delay s1 else (None, s1))
      else (None, s))"

text \<open>\<^verbatim>\<open>reset\<close>.\<close>

definition reset :: "RateLimiter \<Rightarrow> RateLimiter" where
  "reset s =
     s\<lparr>second_window := [], minute_window := [], hour_window := [],
       current_delay := min_delay (config s), consecutive_errors := 0,
       is_blocked := False, block_until := 0\<rparr>"

text \<open>
  A client of the limiter: any sequence of its four public operations, each entered
  after some time has passed since the previous one returned. An exception leaves the
  limiter as it was when raised; the next call finds it so.
\<close>

datatype rl_op = Acquire | ReportError "int option" | ReportSuccess | Reset

fun rl_step :: "rl_op \<Rightarrow> real \<Rightarrow> RateLimiter \<Rightarrow> RateLimiter \<times> real" where
  "rl_step Acquire now s = snd (acquire now s)"
| "rl_step (ReportError st) now s = (report_error st now s, now)"
| "rl_step ReportSuccess now s = (snd (report_success s), now)"
| "rl_step Reset now s = (reset s, now)"

fun rl_run :: "real \<Rightarrow> RateLimiter \<Rightarrow> (real \<times> rl_op) list \<Rightarrow> RateLimiter \<times> real" where
  "rl_run now s [] = (s, now)"
| "rl_run now s ((gap, op) # ops) =
     (case rl_step op (now + gap) s of (s', now') \<Rightarrow> rl_run now' s' ops)"

subsection \<open>What \<^verbatim>\<open>report_error\<close> does\<close>

text \<open>
  Claim C2, as the code has it. In adaptive mode \<^verbatim>\<open>report_error\<close> adds one to the
  consecutive-error count. If the status code is one of 429, 503, 521, 522, 523, 524,
  the current delay becomes \<open>min (current_delay * backoff_factor) max_delay\<close>; for
  every other status, and for the call without a status code, the delay and the block
  are left as they were. When the status is 429, the limiter is blocked until
  \<open>now + min (consecutive_errors * 30) recovery_time\<close>, with the count already
  incremented.
\<close>

theorem report_error_effect:
  assumes "adaptive (config s)"
  shows "consecutive_errors (report_error st now s) = consecutive_errors s + 1
    \<and> (status_in st critical_statuses \<longrightarrow>
         current_delay (report_error st now s)
           = min (current_delay s * backoff_factor (config s)) (max_delay (config s)))
    \<and> (\<not> status_in st critical_statuses \<longrightarrow>
         current_delay (report_error st now s) = current_delay s
         \<and> is_blocked (report_error st now s) = is_blocked s
         \<and> block_until (report_error st now s) = block_until s)
    \<and> (st = Some 429 \<longrightarrow>
         is_blocked (report_error st now s)
         \<and> block_until (report_error st now s)
             = now + min (real_of_int (consecutive_errors s + 1) * 30) (recovery_time (config s)))"
  using assms
  by (auto simp: report_error_def increase_delay_def apply_temporary_block_def Let_def
        status_in_def critical_statuses_def)

text \<open>
  The theorem at a status 429 reported at time 10 to a fresh limiter with the default
  configuration: one error, delay doubled to 1, blocked until 40.
\<close>

theorem report_error_effect_witness:
  "adaptive (config (RateLimiter_init RateLimitConfig_default))
  \<and> consecutive_errors (report_error (Some 429) 10 (RateLimiter_init RateLimitConfig_default)) = 1
  \<and> current_delay (report_error (Some 429) 10 (RateLimiter_init RateLimitConfig_default)) = 1
  \<and> is_blocked (report_error (Some 429) 10 (RateLimiter_init RateLimitConfig_default))
  \<and> block_until (report_error (Some 429) 10 (RateLimiter_init RateLimitConfig_default)) = 40"
  using report_error_effect [of "RateLimiter_init RateLimitConfig_default" "Some 429" 10]
  by (simp add: RateLimiter_init_def RateLimitConfig_default_def status_in_def critical_statuses_def)

text \<open>
  Without a status code (the transport-failure call \<^verbatim>\<open>report_error()\<close>) the delay is
  not multiplied: on a fresh default limiter in adaptive mode it stays \<open>1/2\<close>, where
  the backoff factor capped at the ceiling would give \<open>1\<close>.
\<close>

theorem report_error_no_status_counterexample:
  "adaptive (config (RateLimiter_init RateLimitConfig_default))
  \<and> current_delay (report_error None 0 (RateLimiter_init RateLimitConfig_default)) = 1 / 2
  \<and> min (current_delay (RateLimiter_init RateLimitConfig_default)
          * backoff_factor (config (RateLimiter_init RateLimitConfig_default)))
         (max_delay (config (RateLimiter_init RateLimitConfig_default))) = 1"
  by (simp add: report_error_def RateLimiter_init_def RateLimitConfig_default_def status_in_def)

subsection \<open>The bounds of the adaptive delay\<close>

definition delay_in_bounds :: "RateLimitConfig \<Rightarrow> RateLimiter \<Rightarrow> bool" where
  "delay_in_bounds cfg s \<longleftrightarrow>
     config s = cfg \<and> min_delay cfg \<le> current_delay s \<and> current_delay s \<le> max_delay cfg"

lemma enforce_keeps_delay:
  "config (fst (snd (enforce_rate_limits now s))) = config s
   \<and> current_delay (fst (snd (enforce_rate_limits now s))) = current_delay s"
  by (simp add: enforce_rate_limits_def cleanup_windows_def Let_def
        split: sum.splits list.splits)

lemma acquire_keeps_delay:
  "config (fst (snd (acquire now s))) = config s
   \<and> current_delay (fst (snd (acquire now s))) = current_delay s"
proof -
  obtain s1 t1 where w: "wait_if_blocked now s = (s1, t1)" by (cases "wait_if_blocked now s")
  then have s1: "config s1 = config s \<and> current_delay s1 = current_delay s"
    by (auto simp: wait_if_blocked_def split: if_splits)
  obtain e s2 t2 where en: "enforce_rate_limits t1 s1 = (e, s2, t2)"
    by (cases "enforce_rate_limits t1 s1")
  with enforce_keeps_delay [of t1 s1] have s2: "config s2 = config s1 \<and> current_delay s2 = current_delay s1"
    by simp
  show ?thesis
    using w en s1 s2 by (cases e) (simp_all add: acquire_def add_request_def Let_def)
qed

lemma report_error_bounds:
  assumes "0 \<le> min_delay cfg" "min_delay cfg \<le> max_delay cfg" "1 \<le> backoff_factor cfg"
    and "delay_in_bounds cfg s"
  shows "delay_in_bounds cfg (report_error st now s)"
proof -
  have c: "config s = cfg" and lo: "min_delay cfg \<le> current_delay s"
    and hi: "current_delay s \<le> max_delay cfg"
    using assms(4) by (simp_all add: delay_in_bounds_def)
  have "0 \<le> current_delay s" using assms(1) lo by simp
  then have "current_delay s * 1 \<le> current_delay s * backoff_factor cfg"
    using assms(3) by (rule mult_left_mono [rotated]) 
  then have up: "min_delay cfg \<le> current_delay s * backoff_factor cfg" using lo by simp
  show ?thesis
    using c lo hi up assms(2)
    by (simp add: delay_in_bounds_def report_error_def increase_delay_def
          apply_temporary_block_def Let_def)
qed

lemma report_success_bounds:
  assumes "0 \<le> min_delay cfg" "min_delay cfg \<le> max_delay cfg" "1 \<le> backoff_factor cfg"
    and "delay_in_bounds cfg s"
  shows "delay_in_bounds cfg (snd (report_success s))"
proof -
  have c: "config s = cfg" and lo: "min_delay cfg \<le> current_delay s"
    and hi: "current_delay s \<le> max_delay cfg"
    using assms(4) by (simp_all add: delay_in_bounds_def)
  have nn: "0 \<le> current_delay s" using assms(1) lo by simp
  have "current_delay s / backoff_factor cfg \<le> current_delay s / 1"
    using assms(3) nn by (intro divide_left_mono) simp_all
  then have dn: "current_delay s / backoff_factor cfg \<le> max_delay cfg" using hi by simp
  have bf: "backoff_factor cfg \<noteq> 0" using assms(3) by simp
  show ?thesis
    using c lo hi dn bf assms(2)
    by (simp add: delay_in_bounds_def report_success_def decrease_delay_def Let_def)
qed

lemma rl_step_bounds:
  assumes "0 \<le> min_delay cfg" "min_delay cfg \<le> max_delay cfg" "1 \<le> backoff_factor cfg"
    and "delay_in_bounds cfg s"
  shows "delay_in_bounds cfg (fst (rl_step op now s))"
proof (cases op)
  case Acquire
  then show ?thesis
    using assms(4) acquire_keeps_delay [of now s] by (simp add: delay_in_bounds_def)
next
  case (ReportError st)
  then show ?thesis using report_error_bounds [OF assms] by simp
next
  case ReportSuccess
  then show ?thesis using report_success_bounds [OF assms] by simp
next
  case Reset
  then show ?thesis using assms(2,4) by (simp add: delay_in_bounds_def reset_def)
qed

lemma rl_run_bounds:
  assumes "0 \<le> min_delay cfg" "min_delay cfg \<le> max_delay cfg" "1 \<le> backoff_factor cfg"
  shows "delay_in_bounds cfg s \<Longrightarrow> delay_in_bounds cfg (fst (rl_run now s ops))"
proof (induction ops arbitrary: now s)
  case Nil
  then show ?case by simp
next
  case (Cons a ops)
  obtain gap op where a: "a = (gap, op)" by (cases a)
  obtain s' now' where st: "rl_step op (now + gap) s = (s', now')"
    by (cases "rl_step op (now + gap) s")
  have "delay_in_bounds cfg s'"
    using rl_step_bounds [OF assms Cons.prems, of op "now + gap"] st by simp
  then show ?case using Cons.IH [of s' now'] a st by simp
qed

text \<open>
  Claim C10, as the code has it. For every configuration with
  \<open>0 \<le> min_delay \<le> max_delay\<close> and \<open>1 \<le> backoff_factor\<close>, the current delay lies
  between \<open>min_delay\<close> and \<open>max_delay\<close> after construction and after every sequence
  of \<^verbatim>\<open>acquire\<close>, \<^verbatim>\<open>report_error\<close>, \<^verbatim>\<open>report_success\<close> and \<^verbatim>\<open>reset\<close> calls, at
  whatever times they are made.
\<close>

theorem delay_bounds_invariant:
  assumes "0 \<le> min_delay cfg" "min_delay cfg \<le> max_delay cfg" "1 \<le> backoff_factor cfg"
  shows "min_delay cfg \<le> current_delay (RateLimiter_init cfg)
       \<and> current_delay (RateLimiter_init cfg) \<le> max_delay cfg
       \<and> min_delay cfg \<le> current_delay (fst (rl_run t0 (RateLimiter_init cfg) ops))
       \<and> current_delay (fst (rl_run t0 (RateLimiter_init cfg) ops)) \<le> max_delay cfg"
proof -
  have i: "delay_in_bounds cfg (RateLimiter_init cfg)"
    using assms(2) by (simp add: delay_in_bounds_def RateLimiter_init_def)
  from rl_run_bounds [OF assms i, of t0 ops] i show ?thesis
    by (simp add: delay_in_bounds_def)
qed

text \<open>The theorem on a run of six operations with the default configuration.\<close>

theorem delay_bounds_invariant_witness:
  "min_delay RateLimitConfig_default
     \<le> current_delay (fst (rl_run 0 (RateLimiter_init RateLimitConfig_default)
          [(0, Acquire), (1, ReportError (Some 429)), (400, Acquire), (0, ReportSuccess), (1, ReportError None), (2, Reset)]))
   \<and> current_delay (fst (rl_run 0 (RateLimiter_init RateLimitConfig_default)
          [(0, Acquire), (1, ReportError (Some 429)), (400, Acquire), (0, ReportSuccess), (1, ReportError None), (2, Reset)]))
     \<le> max_delay RateLimitConfig_default"
  using delay_bounds_invariant [of RateLimitConfig_default 0
     "[(0, Acquire), (1, ReportError (Some 429)), (400, Acquire), (0, ReportSuccess), (1, ReportError None), (2, Reset)]"]
  by (simp add: RateLimitConfig_default_def)

text \<open>
  With \<open>min_delay \<le> max_delay\<close> alone the bound fails: a backoff factor of \<open>1/2\<close>
  takes the delay from \<open>1/2\<close> to \<open>1/4\<close>, below \<open>min_delay\<close>, on the first status 429.
\<close>

theorem delay_bounds_counterexample:
  "min_delay (RateLimitConfig_default\<lparr>backoff_factor := 1 / 2\<rparr>)
     \<le> max_delay (RateLimitConfig_default\<lparr>backoff_factor := 1 / 2\<rparr>)
   \<and> current_delay (fst (rl_run 0 (RateLimiter_init (RateLimitConfig_default\<lparr>backoff_factor := 1 / 2\<rparr>))
        [(0, ReportError (Some 429))])) = 1 / 4
   \<and> min_delay (RateLimitConfig_default\<lparr>backoff_factor := 1 / 2\<rparr>) = 1 / 2"
  by (simp add: RateLimitConfig_default_def RateLimiter_init_def report_error_def
        status_in_def critical_statuses_def increase_delay_def apply_temporary_block_def)

subsection \<open>The per-second window\<close>






lemma popleft_old_keep: "now - t1 \<le> h \<Longrightarrow> popleft_old h now (t1 # w) = t1 # w"
  by simp


















section \<open>utils/retry.py\<close>

text \<open>
  The dataclass \<^verbatim>\<open>RetryConfig\<close>. Its field \<open>max_delay\<close> shares its name with the one of
  \<open>RateLimitConfig\<close>; from here on the plain name is the retry configuration's.
\<close>

record RetryConfig =
  max_attempts :: int
  base_delay :: real
  max_delay :: real
  exponential_base :: real
  jitter :: bool
  backoff_multiplier :: real

definition RetryConfig_default :: RetryConfig where
  "RetryConfig_default =
     \<lparr>max_attempts = 3, base_delay = 1, max_delay = 60, exponential_base = 2,
      jitter = True, backoff_multiplier = 1\<rparr>"

text \<open>
  Exceptions an operation can raise. \<open>ClientResponseError\<close> is aiohttp's exception for
  an HTTP error status and carries that status; in aiohttp it is a subclass of
  \<open>ClientError\<close>. \<open>ClientError\<close> stands for every other aiohttp client error,
  \<open>OtherException\<close> for any exception outside the listed classes.
\<close>

datatype exn =
    NonRetryableError
  | RetryableError
  | ClientResponseError int
  | ClientError
  | TimeoutError
  | ConnectionError
  | OSError
  | OtherException string

text \<open>
  The range of a float. A real number whose absolute value is at least
  \<open>2^1024 - 2^970\<close>, half a unit in the last place above the largest float, rounds to
  infinity.
\<close>

definition float_limit :: real where
  "float_limit = 2 ^ 1024 - 2 ^ 970"

definition float_overflows :: "real \<Rightarrow> bool" where
  "float_overflows v \<longleftrightarrow> float_limit \<le> \<bar>v\<bar>"

text \<open>
  \<^verbatim>\<open>float ** int\<close>: a zero base with a negative exponent raises \<open>ZeroDivisionError\<close>,
  a result outside the range of a float raises \<open>OverflowError\<close> (as \<^verbatim>\<open>2.0 ** 1024\<close>).
\<close>

definition py_pow :: "real \<Rightarrow> int \<Rightarrow> py_error + real" where
  "py_pow x n =
     (if n < 0 \<and> x = 0 then Inl ZeroDivisionError
      else (let v = (if 0 \<le> n then x ^ nat n else 1 / x ^ nat (- n))
            in if float_overflows v then Inl OverflowError else Inr v))"

text \<open>
  \<^verbatim>\<open>random.uniform(a, b)\<close> is \<^verbatim>\<open>a + (b - a) * random()\<close>; \<open>u\<close> is the value of
  \<^verbatim>\<open>random()\<close>, a number from 0 up to 1.
\<close>

definition uniform :: "real \<Rightarrow> real \<Rightarrow> real \<Rightarrow> real" where
  "uniform u a b = a + (b - a) * u"

definition calculate_delay :: "real \<Rightarrow> int \<Rightarrow> RetryConfig \<Rightarrow> py_error + real" where
  "calculate_delay u attempt cfg =
     (case py_pow (exponential_base cfg) (attempt - 1) of
        Inl e \<Rightarrow> Inl e
      | Inr p \<Rightarrow>
          (let delay = base_delay cfg * p;
               delay = delay * backoff_multiplier cfg;
               delay = min delay (max_delay cfg);
               delay = (if jitter cfg
                        then (let jitter_range = delay * (1 / 10)
                              in delay + uniform u (- jitter_range) jitter_range)
                        else delay)
           in Inr (max 0 delay)))"









definition RETRYABLE_STATUS_CODES :: "int list" where
  "RETRYABLE_STATUS_CODES = [429, 500, 502, 503, 504, 521, 522, 523, 524]"

definition is_retryable_http_status :: "int \<Rightarrow> bool" where
  "is_retryable_http_status status_code \<longleftrightarrow> status_code \<in> set RETRYABLE_STATUS_CODES"

text \<open>
  \<^verbatim>\<open>isinstance(e, NonRetryableError)\<close>, \<^verbatim>\<open>isinstance(e, RETRYABLE_EXCEPTIONS)\<close> and
  \<^verbatim>\<open>isinstance(e, aiohttp.ClientResponseError)\<close>. The tuple \<^verbatim>\<open>RETRYABLE_EXCEPTIONS\<close>
  lists \<open>aiohttp.ClientError\<close>, so every \<open>ClientResponseError\<close> is an instance of it.
\<close>

fun isinstance_NonRetryableError :: "exn \<Rightarrow> bool" where
  "isinstance_NonRetryableError NonRetryableError = True"
| "isinstance_NonRetryableError _ = False"

fun isinstance_RETRYABLE_EXCEPTIONS :: "exn \<Rightarrow> bool" where
  "isinstance_RETRYABLE_EXCEPTIONS ClientError = True"
| "isinstance_RETRYABLE_EXCEPTIONS (ClientResponseError _) = True"
| "isinstance_RETRYABLE_EXCEPTIONS TimeoutError = True"
| "isinstance_RETRYABLE_EXCEPTIONS ConnectionError = True"
| "isinstance_RETRYABLE_EXCEPTIONS OSError = True"
| "isinstance_RETRYABLE_EXCEPTIONS RetryableError = True"
| "isinstance_RETRYABLE_EXCEPTIONS _ = False"

definition is_retryable_exception :: "exn \<Rightarrow> bool" where
  "is_retryable_exception e =
     (if isinstance_NonRetryableError e then False
      else if isinstance_RETRYABLE_EXCEPTIONS e then True
      else (case e of ClientResponseError status \<Rightarrow> is_retryable_http_status status
            | _ \<Rightarrow> False))"

text \<open>
  What \<^verbatim>\<open>retry_async\<close> ends with: the operation's result, an exception of the
  operation re-raised, or an exception of the retry code itself.
\<close>

datatype 'a outcome = Returned 'a | Raised exn | Failed py_error

text \<open>
  The \<^verbatim>\<open>for attempt in range(1, max_attempts + 1)\<close> loop with \<open>n\<close> iterations left.
  \<open>func k\<close> is what the \<open>k\<close>-th invocation of the operation does, \<open>rnd k\<close> the random
  number drawn for the delay after it. The result comes with the number of invocations
  made and the delays slept. The \<^verbatim>\<open>on_retry\<close> callback is left out: its exceptions are
  caught and logged, so it has no part in the result.
\<close>

fun retry_loop :: "RetryConfig \<Rightarrow> (int \<Rightarrow> real) \<Rightarrow> (int \<Rightarrow> exn + 'a)
    \<Rightarrow> nat \<Rightarrow> int \<Rightarrow> exn option \<Rightarrow> nat \<Rightarrow> real list \<Rightarrow> 'a outcome \<times> nat \<times> real list" where
  "retry_loop cfg rnd func 0 attempt last_exception calls slept =
     (case last_exception of
        Some e \<Rightarrow> (Raised e, calls, slept)
      | None \<Rightarrow> (Failed RuntimeError, calls, slept))"
| "retry_loop cfg rnd func (Suc n) attempt last_exception calls slept =
     (case func attempt of
        Inr result \<Rightarrow> (Returned result, Suc calls, slept)
      | Inl e \<Rightarrow>
          if \<not> is_retryable_exception e then (Raised e, Suc calls, slept)
          else if attempt = max_attempts cfg then (Raised e, Suc calls, slept)
          else (case calculate_delay (rnd attempt) attempt cfg of
                  Inl err \<Rightarrow> (Failed err, Suc calls, slept)
                | Inr delay \<Rightarrow>
                    retry_loop cfg rnd func n (attempt + 1) (Some e) (Suc calls) (slept @ [delay])))"

definition retry_async :: "RetryConfig \<Rightarrow> (int \<Rightarrow> real) \<Rightarrow> (int \<Rightarrow> exn + 'a)
    \<Rightarrow> 'a outcome \<times> nat \<times> real list" where
  "retry_async cfg rnd func = retry_loop cfg rnd func (nat (max_attempts cfg)) 1 None 0 []"

subsection \<open>What the classifier lets through\<close>

text \<open>
  Relative to the code's own classifier \<^verbatim>\<open>is_retryable_exception\<close>: with
  \<open>max_attempts = 3\<close> and an exponential base that is a float, an operation whose every
  invocation raises an exception the classifier accepts is invoked exactly three times,
  and the exception of the third invocation is raised; with at least one attempt
  configured, an operation whose first invocation raises an exception the classifier
  refuses is invoked exactly once, nothing is slept, and that exception is raised.
\<close>

lemma calculate_delay_first: "\<exists>d. calculate_delay u 1 cfg = Inr d"
  by (simp add: calculate_delay_def py_pow_def Let_def float_overflows_def float_limit_def)

lemma calculate_delay_second:
  "\<not> float_overflows (exponential_base cfg) \<Longrightarrow> \<exists>d. calculate_delay u 2 cfg = Inr d"
  by (simp add: calculate_delay_def py_pow_def Let_def)

lemma retry_async_by_classifier:
  "(max_attempts cfg = 3 \<and> \<not> float_overflows (exponential_base cfg)
      \<and> (\<forall>k. func k = Inl (err k) \<and> is_retryable_exception (err k))
      \<longrightarrow> fst (retry_async cfg rnd func) = Raised (err 3)
          \<and> fst (snd (retry_async cfg rnd func)) = 3)
   \<and> (1 \<le> max_attempts cfg \<and> func 1 = Inl e \<and> \<not> is_retryable_exception e
      \<longrightarrow> retry_async cfg rnd func = (Raised e, 1, []))"
proof (intro conjI impI)
  assume a: "max_attempts cfg = 3 \<and> \<not> float_overflows (exponential_base cfg)
      \<and> (\<forall>k. func k = Inl (err k) \<and> is_retryable_exception (err k))"
  then have m: "max_attempts cfg = 3" and f: "\<And>k. func k = Inl (err k)"
    and r: "\<And>k. is_retryable_exception (err k)"
    and fin: "\<not> float_overflows (exponential_base cfg)" by simp_all
  obtain d1 where d1: "calculate_delay (rnd 1) 1 cfg = Inr d1"
    using calculate_delay_first by blast
  obtain d2 where d2: "calculate_delay (rnd 2) 2 cfg = Inr d2"
    using calculate_delay_second [OF fin] by blast
  have n: "nat (max_attempts cfg) = Suc (Suc (Suc 0))" using m by simp
  have run: "retry_async cfg rnd func = (Raised (err 3), 3, [d1, d2])"
    unfolding retry_async_def n by (simp add: f r m d1 d2)
  show "fst (retry_async cfg rnd func) = Raised (err 3)" using run by simp
  show "fst (snd (retry_async cfg rnd func)) = 3" using run by simp
next
  assume a: "1 \<le> max_attempts cfg \<and> func 1 = Inl e \<and> \<not> is_retryable_exception e"
  then obtain n where n: "nat (max_attempts cfg) = Suc n" by (cases "nat (max_attempts cfg)") auto
  show "retry_async cfg rnd func = (Raised e, 1, [])"
    unfolding retry_async_def n using a by simp
qed

subsection \<open>An HTTP 404 is retried\<close>

text \<open>
  An operation that answers every invocation with HTTP status 404, as the page fetch
  does through \<^verbatim>\<open>raise_for_status\<close>.
\<close>

definition always_404 :: "int \<Rightarrow> exn + unit" where
  "always_404 k = Inl (ClientResponseError 404)"

lemma default_delay_1: "calculate_delay (1 / 2) 1 RetryConfig_default = Inr 1"
  by (simp add: calculate_delay_def py_pow_def Let_def float_overflows_def float_limit_def
        uniform_def RetryConfig_default_def)

lemma default_delay_2: "calculate_delay (1 / 2) 2 RetryConfig_default = Inr 2"
  by (simp add: calculate_delay_def py_pow_def Let_def float_overflows_def float_limit_def
        uniform_def RetryConfig_default_def)

text \<open>
  Claim C4 asks that an operation failing with a fatal error is invoked exactly once.
  Status 404 is not among the retryable status codes, yet the classifier accepts the
  exception that carries it: every \<open>ClientResponseError\<close> is an instance of
  \<open>aiohttp.ClientError\<close>, which the tuple \<^verbatim>\<open>RETRYABLE_EXCEPTIONS\<close> lists, so the test of
  the status is never reached. Under the default configuration (three attempts) the
  operation is invoked three times, with sleeps of 1 and 2 seconds between, before the
  404 is raised.
\<close>

theorem http_404_is_retried:
  "is_retryable_http_status 404 = False
   \<and> is_retryable_exception (ClientResponseError 404) = True
   \<and> retry_async RetryConfig_default (\<lambda>k. 1 / 2) always_404
       = (Raised (ClientResponseError 404), 3, [1, 2])"
proof -
  have n: "nat (max_attempts RetryConfig_default) = Suc (Suc (Suc 0))"
    by (simp add: RetryConfig_default_def)
  have m: "max_attempts RetryConfig_default = 3" by (simp add: RetryConfig_default_def)
  have s: "is_retryable_http_status 404 = False"
    by (simp add: is_retryable_http_status_def RETRYABLE_STATUS_CODES_def)
  have r: "is_retryable_exception (ClientResponseError 404) = True"
    by (simp add: is_retryable_exception_def)
  have run: "retry_async RetryConfig_default (\<lambda>k. 1 / 2) always_404
       = (Raised (ClientResponseError 404), 3, [1, 2])"
    unfolding retry_async_def n
    by (simp add: always_404_def r m default_delay_1 default_delay_2)
  show ?thesis using s r run by simp
qed

section \<open>core/parser.py: the price parser\<close>

text \<open>
  A Python \<^verbatim>\<open>str\<close> is a sequence of Unicode code points; it is modelled as the list of
  their numbers, so that length, indexing and the character classes count what Python
  counts. The character tables below are those of CPython 3.11 (Unicode 14).
\<close>

type_synonym pystr = "nat list"

text \<open>\<^verbatim>\<open>str.isspace\<close>, which is also the class \<^verbatim>\<open>\s\<close> of \<^verbatim>\<open>re\<close> on \<^verbatim>\<open>str\<close> patterns.\<close>

definition whitespace :: "nat list" where
  "whitespace = [9, 10, 11, 12, 13, 28, 29, 30, 31, 32, 133, 160, 5760, 8192, 8193, 8194,
     8195, 8196, 8197, 8198, 8199, 8200, 8201, 8202, 8232, 8233, 8239, 8287, 12288]"

definition is_space :: "nat \<Rightarrow> bool" where
  "is_space c \<longleftrightarrow> c \<in> set whitespace"

text \<open>
  The decimal digits (category Nd), the class \<^verbatim>\<open>\d\<close>: 66 blocks of ten consecutive code
  points, each starting at its digit zero.
\<close>

definition digit_blocks :: "nat list" where
  "digit_blocks = [48, 1632, 1776, 1984, 2406, 2534, 2662, 2790, 2918, 3046, 3174, 3302,
     3430, 3558, 3664, 3792, 3872, 4160, 4240, 6112, 6160, 6470, 6608, 6784, 6800, 6992,
     7088, 7232, 7248, 42528, 43216, 43264, 43472, 43504, 43600, 44016, 65296, 66720,
     68912, 69734, 69872, 69942, 70096, 70384, 70736, 70864, 71248, 71360, 71472, 71904,
     72016, 72784, 73040, 73120, 92768, 92864, 93008, 120782, 120792, 120802, 120812,
     120822, 123200, 123632, 125264, 130032]"

definition digit_value :: "nat \<Rightarrow> nat option" where
  "digit_value c =
     (case filter (\<lambda>b. b \<le> c \<and> c < b + 10) digit_blocks of
        [] \<Rightarrow> None
      | b # _ \<Rightarrow> Some (c - b))"

definition is_digit :: "nat \<Rightarrow> bool" where
  "is_digit c \<longleftrightarrow> digit_value c \<noteq> None"

text \<open>
  \<^verbatim>\<open>str.lower\<close> on the capital letters of ASCII, Latin-1 and the Cyrillic block; other
  code points are left as they are (the cased letters of other scripts are outside the
  model).
\<close>

definition lower_char :: "nat \<Rightarrow> nat" where
  "lower_char c =
     (if 65 \<le> c \<and> c \<le> 90 then c + 32
      else if 192 \<le> c \<and> c \<le> 222 \<and> c \<noteq> 215 then c + 32
      else if 1040 \<le> c \<and> c \<le> 1071 then c + 32
      else if 1024 \<le> c \<and> c \<le> 1039 then c + 80
      else c)"

definition lower :: "pystr \<Rightarrow> pystr" where
  "lower s = map lower_char s"

definition strip :: "pystr \<Rightarrow> pystr" where
  "strip s = rev (dropWhile is_space (rev (dropWhile is_space s)))"

text \<open>\<^verbatim>\<open>s.startswith(p)\<close> and \<^verbatim>\<open>needle in haystack\<close> for strings.\<close>

fun startswith :: "'a list \<Rightarrow> 'a list \<Rightarrow> bool" where
  "startswith s [] = True"
| "startswith [] (p # ps) = False"
| "startswith (c # cs) (p # ps) = (c = p \<and> startswith cs ps)"

fun contains :: "'a list \<Rightarrow> 'a list \<Rightarrow> bool" where
  "contains [] needle = (needle = [])"
| "contains (c # cs) needle = (startswith (c # cs) needle \<or> contains cs needle)"

text \<open>
  \<^verbatim>\<open>re.search(r'[\d\s,\.]+', s)\<close>: the leftmost longest run of digits, whitespace,
  commas and dots; \<open>None\<close> when the string has no such character.
\<close>

definition in_number_class :: "nat \<Rightarrow> bool" where
  "in_number_class c \<longleftrightarrow> is_digit c \<or> is_space c \<or> c = 44 \<or> c = 46"

definition search_number :: "pystr \<Rightarrow> pystr option" where
  "search_number s =
     (case takeWhile in_number_class (dropWhile (\<lambda>c. \<not> in_number_class c) s) of
        [] \<Rightarrow> None
      | c # cs \<Rightarrow> Some (c # cs))"

text \<open>\<^verbatim>\<open>s.replace(' ', '').replace(',', '.')\<close>.\<close>

definition clean_number :: "pystr \<Rightarrow> pystr" where
  "clean_number s = map (\<lambda>c. if c = 44 then 46 else c) (filter (\<lambda>c. c \<noteq> 32) s)"

text \<open>
  \<^verbatim>\<open>float(s)\<close> on the strings \<open>clean_number\<close> can produce: digits, dots and whitespace.
  \<^verbatim>\<open>float\<close> drops leading and trailing whitespace (the ASCII blanks, and every
  whitespace character from U+0080 on), then wants digits with at most one dot among
  them; anything else is a \<open>ValueError\<close>, here \<open>None\<close>. The value is the decimal number
  written, which a float holds exactly when it is a whole number below \<open>2^53\<close>.
\<close>

definition float_blank :: "nat \<Rightarrow> bool" where
  "float_blank c \<longleftrightarrow> c \<in> set [9, 10, 11, 12, 13, 32] \<or> (127 \<le> c \<and> is_space c)"

definition digits_value :: "pystr \<Rightarrow> nat" where
  "digits_value s = foldl (\<lambda>acc c. 10 * acc + (case digit_value c of Some v \<Rightarrow> v | None \<Rightarrow> 0)) 0 s"

definition py_float :: "pystr \<Rightarrow> real option" where
  "py_float s =
     (let body = rev (dropWhile float_blank (rev (dropWhile float_blank s)));
          whole = takeWhile (\<lambda>c. c \<noteq> 46) body;
          frac = drop 1 (dropWhile (\<lambda>c. c \<noteq> 46) body)
      in if list_all is_digit whole \<and> list_all is_digit frac \<and> (whole \<noteq> [] \<or> frac \<noteq> [])
         then Some (real (digits_value whole) + real (digits_value frac) / 10 ^ length frac)
         else None)"

datatype PriceType = FIXED | NEGOTIABLE | HOURLY | RANGE

text \<open>
  The keywords of \<^verbatim>\<open>_parse_price\<close>, in code points: the six negotiable keywords
  (Russian for "negotiable", "by agreement", "agreement", then "negotiable", "tbd" and
  Russian for "under discussion"), the hour units (Russian "chas", "hour") and the range
  markers ("-", Russian "ot" = from, "do" = to).
\<close>

definition negotiable_keywords :: "pystr list" where
  "negotiable_keywords =
     [[1076, 1086, 1075, 1086, 1074, 1086, 1088, 1085, 1072, 1103],
      [1087, 1086, 32, 1076, 1086, 1075, 1086, 1074, 1086, 1088, 1077, 1085, 1085, 1086, 1089, 1090, 1080],
      [1076, 1086, 1075, 1086, 1074, 1086, 1088],
      [110, 101, 103, 111, 116, 105, 97, 98, 108, 101],
      [116, 98, 100],
      [1086, 1073, 1089, 1091, 1078, 1076, 1072, 1077, 1090, 1089, 1103]]"

text \<open>\<^verbatim>\<open>KworkParser._parse_price\<close>.\<close>

definition parse_price :: "pystr \<Rightarrow> real option \<times> PriceType" where
  "parse_price text0 =
     (if text0 = [] then (None, NEGOTIABLE)
      else (let price_text = strip (lower text0) in
        if list_ex (\<lambda>keyword. contains price_text keyword) negotiable_keywords
        then (None, NEGOTIABLE)
        else (case search_number price_text of
                None \<Rightarrow> (None, NEGOTIABLE)
              | Some price_match \<Rightarrow>
                  (case py_float (clean_number price_match) of
                     None \<Rightarrow> (None, NEGOTIABLE)
                   | Some price \<Rightarrow>
                       if contains price_text [1095, 1072, 1089] \<or> contains price_text [104, 111, 117, 114]
                       then (Some price, HOURLY)
                       else if contains price_text [45] \<or> contains price_text [1086, 1090]
                               \<or> contains price_text [1076, 1086]
                       then (Some price, RANGE)
                       else (Some price, FIXED)))))"

subsection \<open>The literal cases\<close>

lemmas price_eval = parse_price_def strip_def lower_def lower_char_def is_space_def whitespace_def
  negotiable_keywords_def search_number_def in_number_class_def is_digit_def digit_value_def
  digit_blocks_def clean_number_def py_float_def float_blank_def digits_value_def Let_def

lemma price_fixed:
  "parse_price [53, 48, 48, 48, 48, 32, 1088, 1091, 1073, 46] = (Some 50000, FIXED)"
  by (simp add: price_eval)

lemma price_negotiable:
  "parse_price [1076, 1086, 1075, 1086, 1074, 1086, 1088, 1085, 1072, 1103] = (None, NEGOTIABLE)"
  by (simp add: price_eval)

lemma price_hourly:
  "parse_price [49, 53, 48, 48, 32, 1088, 1091, 1073, 47, 1095, 1072, 1089] = (Some 1500, HOURLY)"
  by (simp add: price_eval)

lemma price_range:
  "parse_price [1086, 1090, 32, 49, 48, 48, 48, 48, 32, 1076, 1086, 32, 50, 48, 48, 48, 48]
     = (Some 10000, RANGE)"
  by (simp add: price_eval)

lemma price_not_a_price:
  "parse_price [110, 111, 116, 32, 97, 32, 112, 114, 105, 99, 101] = (None, NEGOTIABLE)"
  by (simp add: price_eval)

text \<open>
  Claim C6. The price parser maps "50000 rub." (in Russian) to \<open>(50000.0, Fixed)\<close>, the
  Russian word for "negotiable" to \<open>(none, Negotiable)\<close>, "1500 rub/hour" (in Russian)
  to \<open>(1500.0, Hourly)\<close>, "from 10000 to 20000" (in Russian) to \<open>(10000.0, Range)\<close>
  and "not a price" to \<open>(none, Negotiable)\<close>. The five inputs are written in code
  points, as in the lemmas above.
\<close>

theorem parse_price_literals:
  "parse_price [53, 48, 48, 48, 48, 32, 1088, 1091, 1073, 46] = (Some 50000, FIXED)
   \<and> parse_price [1076, 1086, 1075, 1086, 1074, 1086, 1088, 1085, 1072, 1103] = (None, NEGOTIABLE)
   \<and> parse_price [49, 53, 48, 48, 32, 1088, 1091, 1073, 47, 1095, 1072, 1089] = (Some 1500, HOURLY)
   \<and> parse_price [1086, 1090, 32, 49, 48, 48, 48, 48, 32, 1076, 1086, 32, 50, 48, 48, 48, 48]
       = (Some 10000, RANGE)
   \<and> parse_price [110, 111, 116, 32, 97, 32, 112, 114, 105, 99, 101] = (None, NEGOTIABLE)"
  using price_fixed price_negotiable price_hourly price_range price_not_a_price
  by (intro conjI)

section \<open>core/parser.py: the pagination walker\<close>

text \<open>
  Of a \<^verbatim>\<open>Project\<close> the walker reads only \<^verbatim>\<open>external_id\<close>; the record keeps the identity,
  the title and the link.
\<close>

text \<open>An ASCII literal as a Python string.\<close>

definition ascii :: "string \<Rightarrow> pystr" where
  "ascii s = map of_char s"

record Project =
  external_id :: pystr
  title :: pystr
  link :: pystr

text \<open>The dictionary \<^verbatim>\<open>pagination_info\<close> built by \<^verbatim>\<open>_extract_pagination_info\<close>.\<close>

record PaginationInfo =
  current_page :: int
  total_pages :: int
  has_next :: bool
  next_page_url :: "pystr option"
  total_projects :: int

text \<open>
  \<^verbatim>\<open>pagination_info.get("has_next", False)\<close>; \<open>None\<close> is the empty dictionary that
  \<^verbatim>\<open>parse_single_page\<close> returns, with an empty list, when the fetch or the parse failed.
\<close>

definition get_has_next :: "PaginationInfo option \<Rightarrow> bool" where
  "get_has_next pagination_info = (case pagination_info of None \<Rightarrow> False | Some i \<Rightarrow> has_next i)"

text \<open>\<^verbatim>\<open>max_pages and current_page > max_pages\<close>: \<open>None\<close> and 0 are falsy.\<close>

definition limit_reached :: "int option \<Rightarrow> int \<Rightarrow> bool" where
  "limit_reached max_pages page = (case max_pages of None \<Rightarrow> False | Some m \<Rightarrow> m \<noteq> 0 \<and> page > m)"

text \<open>
  The duplicate filter: with a repository, the projects it does not know, each counted
  in \<^verbatim>\<open>stats["projects_new"]\<close>; without one, the batch as it is. The repository's
  \<^verbatim>\<open>exists_project\<close> catches its own exceptions, so it is a total predicate.
\<close>

definition filter_known :: "(pystr \<Rightarrow> bool) option \<Rightarrow> Project list \<Rightarrow> Project list \<times> nat" where
  "filter_known project_repository projects =
     (case project_repository of
        None \<Rightarrow> (projects, 0)
      | Some exists_project \<Rightarrow>
          (let filtered_projects = filter (\<lambda>project. \<not> exists_project (external_id project)) projects
           in (filtered_projects, length filtered_projects)))"

text \<open>
  The loop of \<^verbatim>\<open>parse_all_pages\<close>. \<open>site page\<close> is what \<^verbatim>\<open>parse_single_page\<close> returns
  for that page: the projects and the pagination dictionary. The batches yielded so far
  and the count of new projects are carried along; the result is the whole stream of
  batches once the generator ends, and \<open>None\<close> when it never does.
\<close>

partial_function (option) walk_pages ::
  "int option \<Rightarrow> (pystr \<Rightarrow> bool) option \<Rightarrow> (int \<Rightarrow> Project list \<times> PaginationInfo option)
    \<Rightarrow> int \<Rightarrow> Project list list \<Rightarrow> nat \<Rightarrow> (Project list list \<times> nat) option" where
  "walk_pages max_pages project_repository site page yielded projects_new =
     (if limit_reached max_pages page then Some (yielded, projects_new)
      else (case site page of (projects, pagination_info) \<Rightarrow>
        if projects = [] \<and> page = 1 then Some (yielded, projects_new)
        else (case filter_known project_repository projects of (batch, new) \<Rightarrow>
          if \<not> get_has_next pagination_info
          then Some (yielded @ [batch], projects_new + new)
          else walk_pages max_pages project_repository site (page + 1)
                 (yielded @ [batch]) (projects_new + new))))"

definition parse_all_pages ::
  "int option \<Rightarrow> (pystr \<Rightarrow> bool) option \<Rightarrow> (int \<Rightarrow> Project list \<times> PaginationInfo option)
    \<Rightarrow> (Project list list \<times> nat) option" where
  "parse_all_pages max_pages project_repository site =
     walk_pages max_pages project_repository site 1 [] 0"

text \<open>
  Claim C7. When the walker is at a page within the page limit whose pagination
  metadata has no \<open>has_next\<close> (or is the empty dictionary), and that page is not an
  empty first page, it yields that page's batch, as the duplicate filter leaves it, and
  the stream ends there; so a single-page site with listings gives exactly one batch.
  When no listing is extracted from the first page, the stream ends with no batch
  yielded.
\<close>

theorem parse_all_pages_end:
  "(\<not> limit_reached max_pages page \<and> site page = (projects, info) \<and> \<not> get_has_next info
      \<and> (projects \<noteq> [] \<or> page \<noteq> 1)
     \<longrightarrow> walk_pages max_pages repo site page yielded n
          = Some (yielded @ [fst (filter_known repo projects)], n + snd (filter_known repo projects)))
   \<and> (\<not> limit_reached max_pages 1 \<and> site 1 = (projects, info) \<and> \<not> get_has_next info
      \<and> projects \<noteq> []
     \<longrightarrow> parse_all_pages max_pages repo site
          = Some ([fst (filter_known repo projects)], snd (filter_known repo projects)))
   \<and> (fst (site 1) = [] \<longrightarrow> parse_all_pages max_pages repo site = Some ([], 0))"
proof (intro conjI impI)
  assume a: "\<not> limit_reached max_pages page \<and> site page = (projects, info) \<and> \<not> get_has_next info
      \<and> (projects \<noteq> [] \<or> page \<noteq> 1)"
  obtain batch new where f: "filter_known repo projects = (batch, new)"
    by (cases "filter_known repo projects")
  show "walk_pages max_pages repo site page yielded n
          = Some (yielded @ [fst (filter_known repo projects)], n + snd (filter_known repo projects))"
    using a f by (subst walk_pages.simps) auto
next
  assume a: "\<not> limit_reached max_pages 1 \<and> site 1 = (projects, info) \<and> \<not> get_has_next info
      \<and> projects \<noteq> []"
  obtain batch new where f: "filter_known repo projects = (batch, new)"
    by (cases "filter_known repo projects")
  show "parse_all_pages max_pages repo site
          = Some ([fst (filter_known repo projects)], snd (filter_known repo projects))"
    unfolding parse_all_pages_def using a f by (subst walk_pages.simps) auto
next
  assume a: "fst (site 1) = []"
  obtain projects info where s: "site 1 = (projects, info)" by (cases "site 1")
  show "parse_all_pages max_pages repo site = Some ([], 0)"
    unfolding parse_all_pages_def using a s by (subst walk_pages.simps) auto
qed

text \<open>
  The theorem on a site of one page with one listing (with and without a repository
  that already knows the listing), at a second page that could not be parsed, and on a
  site whose first page has no listing although it announces a next page.
\<close>

definition listing_123 :: Project where
  "listing_123 = \<lparr>external_id = ascii ''123'', title = ascii ''Landing page'',
     link = ascii ''https://kwork.ru/projects/123''\<rparr>"

definition last_page :: PaginationInfo where
  "last_page = \<lparr>current_page = 1, total_pages = 1, has_next = False, next_page_url = None,
     total_projects = 0\<rparr>"

definition single_page_site :: "int \<Rightarrow> Project list \<times> PaginationInfo option" where
  "single_page_site page = (if page = 1 then ([listing_123], Some last_page) else ([], None))"

definition empty_site :: "int \<Rightarrow> Project list \<times> PaginationInfo option" where
  "empty_site page = ([], Some (last_page\<lparr>has_next := True\<rparr>))"

theorem parse_all_pages_end_witness:
  "parse_all_pages None None single_page_site = Some ([[listing_123]], 0)
   \<and> parse_all_pages (Some 5) (Some (\<lambda>i. i = ascii ''123'')) single_page_site = Some ([[]], 0)
   \<and> walk_pages None None single_page_site 2 [[listing_123]] 0 = Some ([[listing_123], []], 0)
   \<and> parse_all_pages None None empty_site = Some ([], 0)"
  using parse_all_pages_end [of None 1 single_page_site "[listing_123]" "Some last_page" None "[]" 0]
    parse_all_pages_end [of "Some 5" 1 single_page_site "[listing_123]" "Some last_page"
       "Some (\<lambda>i. i = ascii ''123'')" "[]" 0]
    parse_all_pages_end [of None 2 single_page_site "[]" None None "[[listing_123]]" 0]
    parse_all_pages_end [of None 1 empty_site "[]" "Some (last_page\<lparr>has_next := True\<rparr>)" None "[]" 0]
  by (simp add: single_page_site_def empty_site_def last_page_def limit_reached_def
        get_has_next_def filter_known_def listing_123_def)

section \<open>core/selectors.py and the selector cache of core/parser.py\<close>

text \<open>
  Field names and selector expressions are ASCII literals of the source; they are
  written as HOL strings. The attributes of the two dataclasses are association lists:
  \<^verbatim>\<open>hasattr\<close> and \<^verbatim>\<open>getattr\<close> are a lookup.
\<close>

definition KworkSelectors :: "(string \<times> string) list" where
  "KworkSelectors =
     [(''projects_container'', ''.wants-list''),
      (''project_card'', ''.want-card''),
      (''project_title'', ''.wants-card__header-title a''),
      (''project_link'', ''.wants-card__header-title a''),
      (''price_container'', ''.wants-card__price''),
      (''price_value'', ''.wants-card__price .kwork-text-money''),
      (''price_currency'', ''.wants-card__price .currency''),
      (''price_type'', ''.wants-card__price .price-type''),
      (''description'', ''.wants-card__description-text''),
      (''description_short'', ''.wants-card__description-text p''),
      (''author_name'', ''.wants-card__header-username''),
      (''author_link'', ''.wants-card__header-username a''),
      (''author_avatar'', ''.wants-card__header-user img''),
      (''category'', ''.wants-card__category''),
      (''category_link'', ''.wants-card__category a''),
      (''tags'', ''.wants-card__tags .tag''),
      (''skills'', ''.wants-card__skills .skill''),
      (''responses_count'', ''.wants-card__responses''),
      (''views_count'', ''.wants-card__views''),
      (''time_posted'', ''.wants-card__time''),
      (''deadline'', ''.wants-card__deadline''),
      (''project_type'', ''.wants-card__type''),
      (''experience_level'', ''.wants-card__experience''),
      (''rating'', ''.wants-card__rating''),
      (''location'', ''.wants-card__location''),
      (''pagination_container'', ''.pagination''),
      (''pagination_next'', ''.pagination .next''),
      (''pagination_pages'', ''.pagination .page-numbers''),
      (''pagination_current'', ''.pagination .current''),
      (''total_projects'', ''.wants-found-count''),
      (''projects_per_page'', ''.wants-per-page'')]"

definition KworkSelectorsAlt :: "(string \<times> string) list" where
  "KworkSelectorsAlt =
     [(''project_card'', ''[data-want-id]''),
      (''project_title'', ''h3 a, .title a, .project-title a''),
      (''project_link'', ''a[href*='/project/']''),
      (''price_container'', ''.price, .cost, .amount, [class*='price']''),
      (''price_value'', ''.price-value, .amount-value, [class*='money']''),
      (''description'', ''.description, .content, .text, p''),
      (''author_name'', ''.author, .username, .user-name, [class*='user']''),
      (''responses_count'', ''[class*='response'], [class*='offer'], [class*='bid']''),
      (''views_count'', ''[class*='view'], [class*='visit']''),
      (''time_posted'', ''[class*='time'], [class*='date'], .timestamp'')]"

text \<open>\<^verbatim>\<open>get_selector\<close>; \<open>None\<close> is the \<open>ValueError\<close> for an unknown field.\<close>

definition get_selector :: "string \<Rightarrow> bool \<Rightarrow> string option" where
  "get_selector field_name use_fallback =
     map_of (if use_fallback then KworkSelectorsAlt else KworkSelectors) field_name"

definition get_all_selectors :: "string \<Rightarrow> string list" where
  "get_all_selectors field_name =
     (let selectors = (case get_selector field_name False of
                         Some primary_selector \<Rightarrow> [primary_selector]
                       | None \<Rightarrow> [])
      in (case get_selector field_name True of
            Some fallback_selector \<Rightarrow>
              if fallback_selector \<notin> set selectors then selectors @ [fallback_selector]
              else selectors
          | None \<Rightarrow> selectors))"

text \<open>
  A parsed document (or one of its elements) as the resolver sees it: its \<^verbatim>\<open>id()\<close>, and
  for each selector expression the number of elements \<^verbatim>\<open>select\<close> finds, or \<open>None\<close> when
  \<^verbatim>\<open>select\<close> raises. In CPython \<^verbatim>\<open>id(x)\<close> is the address of \<open>x\<close>: no two objects alive
  at the same time share it, but an object created after another was freed can.
\<close>

record Soup =
  soup_id :: nat
  soup_select :: "string \<Rightarrow> nat option"

text \<open>\<^verbatim>\<open>str\<close> of a non-negative integer.\<close>

function str_nat :: "nat \<Rightarrow> string" where
  "str_nat n =
     (if n < 10 then [''0123456789'' ! n] else str_nat (n div 10) @ [''0123456789'' ! (n mod 10)])"
  by pat_completeness auto
termination
  by (relation "measure id") auto

declare str_nat.simps [simp del]

text \<open>The loop of \<^verbatim>\<open>test_selector\<close> over the candidate selectors.\<close>

fun first_working :: "Soup \<Rightarrow> string list \<Rightarrow> string option" where
  "first_working soup [] = None"
| "first_working soup (selector # rest) =
     (case soup_select soup selector of
        None \<Rightarrow> first_working soup rest
      | Some elements \<Rightarrow> if elements > 0 then Some selector else first_working soup rest)"

text \<open>
  \<^verbatim>\<open>SelectorMatcher.test_selector\<close>, with the dictionary \<^verbatim>\<open>_cached_selectors\<close> of the
  module-wide matcher passed in and returned.
\<close>

definition test_selector :: "(string \<rightharpoonup> string) \<Rightarrow> Soup \<Rightarrow> string
    \<Rightarrow> string option \<times> (string \<rightharpoonup> string)" where
  "test_selector cached_selectors soup field_name =
     (let cache_key = field_name @ ''_'' @ str_nat (soup_id soup) in
      case cached_selectors cache_key of
        Some selector \<Rightarrow> (Some selector, cached_selectors)
      | None \<Rightarrow>
          (case first_working soup (get_all_selectors field_name) of
             Some selector \<Rightarrow> (Some selector, cached_selectors(cache_key \<mapsto> selector))
           | None \<Rightarrow> (None, cached_selectors)))"

text \<open>
  \<^verbatim>\<open>KworkParser._get_working_selector\<close>: the parser's own \<^verbatim>\<open>_selector_cache\<close> in front
  of the matcher's. Neither dictionary is ever cleared.
\<close>

record SelectorCaches =
  selector_cache :: "string \<rightharpoonup> string"
  cached_selectors :: "string \<rightharpoonup> string"

definition no_caches :: SelectorCaches where
  "no_caches = \<lparr>selector_cache = Map.empty, cached_selectors = Map.empty\<rparr>"

definition get_working_selector :: "SelectorCaches \<Rightarrow> Soup \<Rightarrow> string
    \<Rightarrow> string option \<times> SelectorCaches" where
  "get_working_selector c soup field_name =
     (let cache_key = field_name @ ''_'' @ str_nat (soup_id soup) in
      case selector_cache c cache_key of
        Some selector \<Rightarrow> (Some selector, c)
      | None \<Rightarrow>
          (case test_selector (cached_selectors c) soup field_name of
             (working_selector, cached') \<Rightarrow>
               (working_selector,
                c\<lparr>selector_cache :=
                     (case working_selector of
                        Some selector \<Rightarrow>
                          if selector \<noteq> [] then (selector_cache c)(cache_key \<mapsto> selector)
                          else selector_cache c
                      | None \<Rightarrow> selector_cache c),
                   cached_selectors := cached'\<rparr>)))"

subsection \<open>Two documents at one address\<close>

text \<open>
  Two listing pages parsed one after the other, the second allocated at the address
  the first had been freed from. On the first only the primary card selector finds
  elements, on the second only the fallback. The parser's caches are the ones it was
  created with.
\<close>

definition first_document :: Soup where
  "first_document =
     \<lparr>soup_id = 140230, soup_select = (\<lambda>selector. Some (if selector = ''.want-card'' then 3 else 0))\<rparr>"

definition second_document :: Soup where
  "second_document =
     \<lparr>soup_id = 140230, soup_select = (\<lambda>selector. Some (if selector = ''[data-want-id]'' then 2 else 0))\<rparr>"

lemmas selector_eval = get_working_selector_def test_selector_def get_all_selectors_def
  get_selector_def KworkSelectors_def KworkSelectorsAlt_def no_caches_def Let_def

lemma key: "str_nat 140230 = ''140230''"
  by (simp add: str_nat.simps)

text \<open>
  Claim C8 asks that an entry recorded while resolving against one document is never
  returned for another. On a parser that has seen nothing, the second document resolves
  \<open>project_card\<close> to the fallback selector. After the first document was resolved, the
  same call returns the first document's primary selector, which selects nothing in the
  second document: the entry keyed by the reused \<^verbatim>\<open>id\<close> is served across documents.
\<close>

theorem selector_cache_leaks:
  "fst (get_working_selector no_caches second_document ''project_card'') = Some ''[data-want-id]''
   \<and> fst (get_working_selector no_caches first_document ''project_card'') = Some ''.want-card''
   \<and> fst (get_working_selector
            (snd (get_working_selector no_caches first_document ''project_card''))
            second_document ''project_card'') = Some ''.want-card''
   \<and> soup_select second_document ''.want-card'' = Some 0"
  by (simp add: selector_eval first_document_def second_document_def key)

section \<open>utils/user\_agents.py\<close>

text \<open>User-agent strings and header fields are ASCII; they are written as HOL strings.\<close>

record UserAgentConfig =
  rotation_interval :: int
  random_rotation :: bool
  prefer_chrome :: bool
  prefer_desktop :: bool
  include_mobile :: bool

definition UA_STANDARD_CONFIG :: UserAgentConfig where
  "UA_STANDARD_CONFIG =
     \<lparr>rotation_interval = 10, random_rotation = True, prefer_chrome = True,
      prefer_desktop = True, include_mobile = False\<rparr>"

definition DESKTOP_CHROME_AGENTS :: "string list" where
  "DESKTOP_CHROME_AGENTS =
     [''Mozilla/5.0 (Windows NT 10.0; Win64; x64) AppleWebKit/537.36 (KHTML, like Gecko) Chrome/120.0.0.0 Safari/537.36'',
      ''Mozilla/5.0 (Windows NT 10.0; Win64; x64) AppleWebKit/537.36 (KHTML, like Gecko) Chrome/119.0.0.0 Safari/537.36'',
      ''Mozilla/5.0 (Windows NT 10.0; Win64; x64) AppleWebKit/537.36 (KHTML, like Gecko) Chrome/118.0.0.0 Safari/537.36'',
      ''Mozilla/5.0 (Macintosh; Intel Mac OS X 10_15_7) AppleWebKit/537.36 (KHTML, like Gecko) Chrome/120.0.0.0 Safari/537.36'',
      ''Mozilla/5.0 (Macintosh; Intel Mac OS X 10_15_7) AppleWebKit/537.36 (KHTML, like Gecko) Chrome/119.0.0.0 Safari/537.36'',
      ''Mozilla/5.0 (X11; Linux x86_64) AppleWebKit/537.36 (KHTML, like Gecko) Chrome/120.0.0.0 Safari/537.36'',
      ''Mozilla/5.0 (X11; Linux x86_64) AppleWebKit/537.36 (KHTML, like Gecko) Chrome/119.0.0.0 Safari/537.36'',
      ''Mozilla/5.0 (Windows NT 11.0; Win64; x64) AppleWebKit/537.36 (KHTML, like Gecko) Chrome/120.0.0.0 Safari/537.36'']"

definition DESKTOP_FIREFOX_AGENTS :: "string list" where
  "DESKTOP_FIREFOX_AGENTS =
     [''Mozilla/5.0 (Windows NT 10.0; Win64; x64; rv:121.0) Gecko/20100101 Firefox/121.0'',
      ''Mozilla/5.0 (Windows NT 10.0; Win64; x64; rv:120.0) Gecko/20100101 Firefox/120.0'',
      ''Mozilla/5.0 (Macintosh; Intel Mac OS X 10.15; rv:121.0) Gecko/20100101 Firefox/121.0'',
      ''Mozilla/5.0 (Macintosh; Intel Mac OS X 10.15; rv:120.0) Gecko/20100101 Firefox/120.0'',
      ''Mozilla/5.0 (X11; Linux x86_64; rv:121.0) Gecko/20100101 Firefox/121.0'',
      ''Mozilla/5.0 (X11; Ubuntu; Linux x86_64; rv:121.0) Gecko/20100101 Firefox/121.0'']"

definition DESKTOP_SAFARI_AGENTS :: "string list" where
  "DESKTOP_SAFARI_AGENTS =
     [''Mozilla/5.0 (Macintosh; Intel Mac OS X 10_15_7) AppleWebKit/605.1.15 (KHTML, like Gecko) Version/17.2 Safari/605.1.15'',
      ''Mozilla/5.0 (Macintosh; Intel Mac OS X 10_15_7) AppleWebKit/605.1.15 (KHTML, like Gecko) Version/17.1 Safari/605.1.15'',
      ''Mozilla/5.0 (Macintosh; Intel Mac OS X 10_15_7) AppleWebKit/605.1.15 (KHTML, like Gecko) Version/16.6 Safari/605.1.15'']"

definition DESKTOP_EDGE_AGENTS :: "string list" where
  "DESKTOP_EDGE_AGENTS =
     [''Mozilla/5.0 (Windows NT 10.0; Win64; x64) AppleWebKit/537.36 (KHTML, like Gecko) Chrome/120.0.0.0 Safari/537.36 Edg/120.0.0.0'',
      ''Mozilla/5.0 (Windows NT 10.0; Win64; x64) AppleWebKit/537.36 (KHTML, like Gecko) Chrome/119.0.0.0 Safari/537.36 Edg/119.0.0.0'',
      ''Mozilla/5.0 (Macintosh; Intel Mac OS X 10_15_7) AppleWebKit/537.36 (KHTML, like Gecko) Chrome/120.0.0.0 Safari/537.36 Edg/120.0.0.0'']"

definition MOBILE_AGENTS :: "string list" where
  "MOBILE_AGENTS =
     [''Mozilla/5.0 (iPhone; CPU iPhone OS 17_2 like Mac OS X) AppleWebKit/605.1.15 (KHTML, like Gecko) Version/17.2 Mobile/15E148 Safari/604.1'',
      ''Mozilla/5.0 (iPhone; CPU iPhone OS 17_1 like Mac OS X) AppleWebKit/605.1.15 (KHTML, like Gecko) Version/17.1 Mobile/15E148 Safari/604.1'',
      ''Mozilla/5.0 (Linux; Android 14; SM-G998B) AppleWebKit/537.36 (KHTML, like Gecko) Chrome/120.0.0.0 Mobile Safari/537.36'',
      ''Mozilla/5.0 (Linux; Android 13; SM-G991B) AppleWebKit/537.36 (KHTML, like Gecko) Chrome/119.0.0.0 Mobile Safari/537.36'',
      ''Mozilla/5.0 (iPad; CPU OS 17_2 like Mac OS X) AppleWebKit/605.1.15 (KHTML, like Gecko) Version/17.2 Mobile/15E148 Safari/604.1'']"

record UserAgentRotator =
  ua_config :: UserAgentConfig
  current_agent :: "string option"
  request_count :: int
  agents_pool :: "string list"
  used_agents :: "string list"

definition build_agents_pool :: "UserAgentConfig \<Rightarrow> string list" where
  "build_agents_pool cfg =
     (let pool = [];
          pool = (if prefer_chrome cfg \<or> \<not> prefer_desktop cfg
                  then pool @ (DESKTOP_CHROME_AGENTS @ DESKTOP_CHROME_AGENTS) else pool);
          pool = (if prefer_desktop cfg
                  then pool @ DESKTOP_FIREFOX_AGENTS @ DESKTOP_SAFARI_AGENTS @ DESKTOP_EDGE_AGENTS
                  else pool);
          pool = (if include_mobile cfg then pool @ MOBILE_AGENTS else pool)
      in if pool = [] then DESKTOP_CHROME_AGENTS else pool)"

definition UserAgentRotator_init :: "UserAgentConfig \<Rightarrow> UserAgentRotator" where
  "UserAgentRotator_init cfg =
     \<lparr>ua_config = cfg, current_agent = None, request_count = 0,
      agents_pool = build_agents_pool cfg, used_agents = []\<rparr>"

text \<open>\<^verbatim>\<open>xs[-k:]\<close> and \<^verbatim>\<open>xs.index(x)\<close> (for an \<open>x\<close> that occurs).\<close>

definition last_n :: "nat \<Rightarrow> 'a list \<Rightarrow> 'a list" where
  "last_n k xs = drop (length xs - k) xs"

fun index_of :: "'a list \<Rightarrow> 'a \<Rightarrow> nat" where
  "index_of [] x = 0"
| "index_of (y # ys) x = (if y = x then 0 else Suc (index_of ys x))"

text \<open>
  \<^verbatim>\<open>_rotate_agent\<close>. \<open>draw\<close> stands for the random number behind \<^verbatim>\<open>random.choice\<close>: it
  picks the element at \<open>draw mod length\<close> of the candidates. The pool is never empty.
\<close>

definition rotate_agent :: "nat \<Rightarrow> UserAgentRotator \<Rightarrow> UserAgentRotator" where
  "rotate_agent draw r =
     (let chosen =
            (if random_rotation (ua_config r)
             then (let available_agents =
                         filter (\<lambda>agent. agent \<notin> set (last_n 5 (used_agents r))) (agents_pool r);
                       available_agents =
                         (if available_agents = [] then agents_pool r else available_agents)
                   in available_agents ! (draw mod length available_agents))
             else (let current_index =
                         (case current_agent r of
                            None \<Rightarrow> 0
                          | Some agent \<Rightarrow>
                              if agent \<in> set (agents_pool r) then index_of (agents_pool r) agent else 0);
                       next_index = (current_index + 1) mod length (agents_pool r)
                   in agents_pool r ! next_index));
          used = used_agents r @ [chosen]
      in r\<lparr>current_agent := Some chosen, request_count := 0,
            used_agents := (if length used > 20 then last_n 20 used else used)\<rparr>)"

text \<open>\<^verbatim>\<open>get_user_agent\<close>: the agent returned and the rotator afterwards.\<close>

definition get_user_agent :: "nat \<Rightarrow> UserAgentRotator \<Rightarrow> string \<times> UserAgentRotator" where
  "get_user_agent draw r =
     (let r1 = (if current_agent r = None \<or> request_count r \<ge> rotation_interval (ua_config r)
                then rotate_agent draw r else r);
          r2 = r1\<lparr>request_count := request_count r1 + 1\<rparr>
      in (case current_agent r2 of Some agent \<Rightarrow> (agent, r2) | None \<Rightarrow> ([], r2)))"

text \<open>\<^verbatim>\<open>UserAgentRotator.get_headers\<close>, without additional headers.\<close>

definition rotator_get_headers :: "nat \<Rightarrow> UserAgentRotator \<Rightarrow> (string \<rightharpoonup> string) \<times> UserAgentRotator" where
  "rotator_get_headers draw r =
     (case get_user_agent draw r of (agent, r') \<Rightarrow>
        (let headers =
               [''User-Agent'' \<mapsto> agent,
                ''Accept'' \<mapsto> ''text/html,application/xhtml+xml,application/xml;q=0.9,image/avif,image/webp,image/apng,*/*;q=0.8,application/signed-exchange;v=b3;q=0.7'',
                ''Accept-Language'' \<mapsto> ''ru-RU,ru;q=0.9,en;q=0.8'',
                ''Accept-Encoding'' \<mapsto> ''gzip, deflate, br'',
                ''DNT'' \<mapsto> ''1'',
                ''Connection'' \<mapsto> ''keep-alive'',
                ''Upgrade-Insecure-Requests'' \<mapsto> ''1'',
                ''Sec-Fetch-Dest'' \<mapsto> ''document'',
                ''Sec-Fetch-Mode'' \<mapsto> ''navigate'',
                ''Sec-Fetch-Site'' \<mapsto> ''none'',
                ''Sec-Fetch-User'' \<mapsto> ''?1'',
                ''Cache-Control'' \<mapsto> ''max-age=0''];
             headers =
               (if contains agent ''Chrome''
                then headers(''sec-ch-ua'' \<mapsto> ''\"Not_A Brand\";v=\"8\", \"Chromium\";v=\"120\", \"Google Chrome\";v=\"120\"'',
                             ''sec-ch-ua-mobile'' \<mapsto> ''?0'',
                             ''sec-ch-ua-platform'' \<mapsto> ''\"Windows\"'')
                else headers)
         in (headers, r')))"

text \<open>\<^verbatim>\<open>str.lower\<close> on ASCII strings, and \<^verbatim>\<open>BrowserProfile\<close>.\<close>

definition ascii_lower :: "string \<Rightarrow> string" where
  "ascii_lower s =
     map (\<lambda>c. if c \<in> set ''ABCDEFGHIJKLMNOPQRSTUVWXYZ''
               then ''abcdefghijklmnopqrstuvwxyz'' ! index_of ''ABCDEFGHIJKLMNOPQRSTUVWXYZ'' c
               else c) s"

definition detect_browser_type :: "string \<Rightarrow> string" where
  "detect_browser_type user_agent =
     (let ua = ascii_lower user_agent in
      if contains ua ''chrome'' \<and> \<not> contains ua ''edg'' then ''chrome''
      else if contains ua ''firefox'' then ''firefox''
      else if contains ua ''safari'' \<and> \<not> contains ua ''chrome'' then ''safari''
      else if contains ua ''edg'' then ''edge''
      else ''unknown'')"

definition detect_os_type :: "string \<Rightarrow> string" where
  "detect_os_type user_agent =
     (let ua = ascii_lower user_agent in
      if contains ua ''windows'' then ''windows''
      else if contains ua ''mac os x'' \<or> contains ua ''macos'' then ''macos''
      else if contains ua ''linux'' then ''linux''
      else if contains ua ''iphone'' \<or> contains ua ''ipad'' then ''ios''
      else if contains ua ''android'' then ''android''
      else ''unknown'')"

definition profile_get_headers :: "string \<Rightarrow> (string \<rightharpoonup> string)" where
  "profile_get_headers user_agent =
     (let browser_type = detect_browser_type user_agent;
          os_type = detect_os_type user_agent;
          base_headers =
            [''User-Agent'' \<mapsto> user_agent,
             ''Accept'' \<mapsto> ''text/html,application/xhtml+xml,application/xml;q=0.9,*/*;q=0.8'',
             ''Accept-Language'' \<mapsto> ''ru-RU,ru;q=0.9,en;q=0.8'',
             ''Accept-Encoding'' \<mapsto> ''gzip, deflate, br'',
             ''DNT'' \<mapsto> ''1'',
             ''Connection'' \<mapsto> ''keep-alive'',
             ''Upgrade-Insecure-Requests'' \<mapsto> ''1'']
      in if browser_type \<in> set [''chrome'', ''edge'']
         then (let base_headers =
                     base_headers(
                       ''Accept'' \<mapsto> ''text/html,application/xhtml+xml,application/xml;q=0.9,image/avif,image/webp,image/apng,*/*;q=0.8,application/signed-exchange;v=b3;q=0.7'',
                       ''Sec-Fetch-Dest'' \<mapsto> ''document'',
                       ''Sec-Fetch-Mode'' \<mapsto> ''navigate'',
                       ''Sec-Fetch-Site'' \<mapsto> ''none'',
                       ''Sec-Fetch-User'' \<mapsto> ''?1'',
                       ''sec-ch-ua'' \<mapsto> ''\"Not_A Brand\";v=\"8\", \"Chromium\";v=\"120\"'',
                       ''sec-ch-ua-mobile'' \<mapsto> ''?0'')
               in if os_type = ''windows'' then base_headers(''sec-ch-ua-platform'' \<mapsto> ''\"Windows\"'')
                  else if os_type = ''macos'' then base_headers(''sec-ch-ua-platform'' \<mapsto> ''\"macOS\"'')
                  else if os_type = ''linux'' then base_headers(''sec-ch-ua-platform'' \<mapsto> ''\"Linux\"'')
                  else base_headers)
         else if browser_type = ''firefox''
         then base_headers(''Accept'' \<mapsto> ''text/html,application/xhtml+xml,application/xml;q=0.9,image/avif,image/webp,*/*;q=0.8'')
         else base_headers)"

subsection \<open>The headers of a macOS fingerprint\<close>

text \<open>
  The fourth user-agent of \<^verbatim>\<open>DESKTOP_CHROME_AGENTS\<close>: Chrome 120 on macOS. A fresh
  rotator with the standard configuration makes it active when its first random draw
  is 3.
\<close>

definition mac_chrome :: string where
  "mac_chrome = ''Mozilla/5.0 (Macintosh; Intel Mac OS X 10_15_7) AppleWebKit/537.36 (KHTML, like Gecko) Chrome/120.0.0.0 Safari/537.36''"

lemma pool_3: "build_agents_pool UA_STANDARD_CONFIG ! 3 = mac_chrome"
  by (simp add: build_agents_pool_def UA_STANDARD_CONFIG_def DESKTOP_CHROME_AGENTS_def mac_chrome_def)

lemma pool_len: "length (build_agents_pool UA_STANDARD_CONFIG) = 28"
  by (simp add: build_agents_pool_def UA_STANDARD_CONFIG_def DESKTOP_CHROME_AGENTS_def
        DESKTOP_FIREFOX_AGENTS_def DESKTOP_SAFARI_AGENTS_def DESKTOP_EDGE_AGENTS_def)

lemma pool_ne: "build_agents_pool UA_STANDARD_CONFIG \<noteq> []"
  using pool_len by auto

lemma first_agent:
  "get_user_agent 3 (UserAgentRotator_init UA_STANDARD_CONFIG)
     = (mac_chrome, (UserAgentRotator_init UA_STANDARD_CONFIG)
          \<lparr>current_agent := Some mac_chrome, request_count := 1, used_agents := [mac_chrome]\<rparr>)"
  by (simp add: get_user_agent_def rotate_agent_def UserAgentRotator_init_def last_n_def
        pool_3 pool_len pool_ne Let_def)
    (simp add: UA_STANDARD_CONFIG_def)

lemma mac_chrome_has_Chrome: "contains mac_chrome ''Chrome''"
  by (simp add: mac_chrome_def)

lemma mac_chrome_os: "detect_os_type mac_chrome = ''macos''"
  by (simp add: detect_os_type_def ascii_lower_def mac_chrome_def)

lemma mac_chrome_browser: "detect_browser_type mac_chrome = ''chrome''"
  by (simp add: detect_browser_type_def ascii_lower_def mac_chrome_def)

text \<open>
  Claim C9 asks that the headers of the active fingerprint agree with its browser and
  operating-system family. With the macOS Chrome user-agent active,
  \<^verbatim>\<open>UserAgentRotator.get_headers\<close> sends that user-agent together with the platform hint
  \<^verbatim>\<open>"Windows"\<close>, while \<^verbatim>\<open>BrowserProfile.get_headers\<close> gives \<^verbatim>\<open>"macOS"\<close> for the same
  user-agent.
\<close>

theorem rotator_headers_platform_mismatch:
  "fst (rotator_get_headers 3 (UserAgentRotator_init UA_STANDARD_CONFIG)) ''User-Agent'' = Some mac_chrome
   \<and> detect_os_type mac_chrome = ''macos''
   \<and> fst (rotator_get_headers 3 (UserAgentRotator_init UA_STANDARD_CONFIG)) ''sec-ch-ua-platform''
       = Some ''\"Windows\"''
   \<and> profile_get_headers mac_chrome ''sec-ch-ua-platform'' = Some ''\"macOS\"''"
  by (simp add: rotator_get_headers_def first_agent mac_chrome_has_Chrome mac_chrome_os
        mac_chrome_browser profile_get_headers_def Let_def)

section \<open>core/parser.py: the identity of a listing\<close>

text \<open>
  What \<^verbatim>\<open>extract_project_data\<close> reads of a listing card for the identity, the title and
  the link: the attribute \<^verbatim>\<open>data-want-id\<close>, and the element the title selector finds,
  with its text (as \<^verbatim>\<open>get_text(strip=True)\<close> gives it) and its \<^verbatim>\<open>href\<close>.
\<close>

record TitleElement =
  element_text :: pystr
  href :: "pystr option"

record ProjectCard =
  data_want_id :: "pystr option"
  title_element :: "TitleElement option"

text \<open>
  \<^verbatim>\<open>re.sub(r'\s+', ' ', text)\<close> (a run of whitespace gives one blank, written when
  the run ends) and \<^verbatim>\<open>_extract_text_safe\<close> with the default \<^verbatim>\<open>""\<close>.\<close>

fun collapse_spaces :: "pystr \<Rightarrow> pystr" where
  "collapse_spaces [] = []"
| "collapse_spaces [c] = (if is_space c then [32] else [c])"
| "collapse_spaces (c # d # cs) =
     (if is_space c then (if is_space d then collapse_spaces (d # cs) else 32 # collapse_spaces (d # cs))
      else c # collapse_spaces (d # cs))"

definition extract_text_safe :: "TitleElement \<Rightarrow> pystr" where
  "extract_text_safe element = strip (collapse_spaces (element_text element))"

text \<open>
  \<^verbatim>\<open>_extract_link_safe\<close>; \<open>urljoin\<close> is the library function of \<^verbatim>\<open>urllib.parse\<close>, used
  only for a link that is not absolute already.
\<close>

definition extract_link_safe :: "(pystr \<Rightarrow> pystr \<Rightarrow> pystr) \<Rightarrow> pystr \<Rightarrow> TitleElement \<Rightarrow> pystr option" where
  "extract_link_safe urljoin base_url element =
     (case href element of
        None \<Rightarrow> None
      | Some h \<Rightarrow>
          if h = [] then None
          else if base_url \<noteq> [] \<and> \<not> (startswith h (ascii ''http://'') \<or> startswith h (ascii ''https://''))
          then Some (urljoin base_url h)
          else Some h)"

text \<open>\<^verbatim>\<open>re.search(r'/(\d+)', link)\<close>: group 1 of the leftmost match.\<close>

fun search_id :: "pystr \<Rightarrow> pystr option" where
  "search_id [] = None"
| "search_id (c # cs) =
     (if c = 47 \<and> takeWhile is_digit cs \<noteq> [] then Some (takeWhile is_digit cs)
      else search_id cs)"

text \<open>\<^verbatim>\<open>str\<close> of an integer.\<close>

definition str_int :: "int \<Rightarrow> string" where
  "str_int i = (if i < 0 then ''-'' @ str_nat (nat (- i)) else str_nat (nat i))"

text \<open>
  The part of \<^verbatim>\<open>extract_project_data\<close> that settles identity, title and link (the
  other fields come after and do not touch these). \<open>py_hash secret\<close> is Python's
  built-in \<^verbatim>\<open>hash\<close> on strings: it is keyed by a secret that the interpreter draws at
  start-up, anew for every process unless \<^verbatim>\<open>PYTHONHASHSEED\<close> fixes it.
\<close>

definition extract_project_data ::
  "('k \<Rightarrow> pystr \<Rightarrow> int) \<Rightarrow> 'k \<Rightarrow> (pystr \<Rightarrow> pystr \<Rightarrow> pystr) \<Rightarrow> ProjectCard \<Rightarrow> Project option" where
  "extract_project_data py_hash secret urljoin project_element =
     (let external_id = (case data_want_id project_element of
                           None \<Rightarrow> None
                         | Some i \<Rightarrow> if i \<noteq> [] then Some i else None)
      in case title_element project_element of
           None \<Rightarrow> None
         | Some element \<Rightarrow>
             (let title = extract_text_safe element in
              case extract_link_safe urljoin (ascii ''https://kwork.ru'') element of
                None \<Rightarrow> None
              | Some project_link \<Rightarrow>
                  (let external_id =
                         (case external_id of
                            Some i \<Rightarrow> i
                          | None \<Rightarrow>
                              (case search_id project_link of
                                 Some digits \<Rightarrow> digits
                               | None \<Rightarrow> ascii (str_int (py_hash secret project_link))))
                   in Some \<lparr>external_id = external_id, title = title, link = project_link\<rparr>)))"

subsection \<open>A card without an identifier\<close>

text \<open>
  A listing card with no \<^verbatim>\<open>data-want-id\<close> whose absolute link has no numeric segment.
\<close>

definition card_without_number :: ProjectCard where
  "card_without_number =
     \<lparr>data_want_id = None,
      title_element = Some \<lparr>element_text = ascii ''Landing page'',
                            href = Some (ascii ''https://kwork.ru/projects/view/landing'')\<rparr>\<rparr>"

lemma ascii_eval: "ascii ''https://kwork.ru/projects/view/landing''
    = [104, 116, 116, 112, 115, 58, 47, 47, 107, 119, 111, 114, 107, 46, 114, 117, 47, 112, 114,
       111, 106, 101, 99, 116, 115, 47, 118, 105, 101, 119, 47, 108, 97, 110, 100, 105, 110, 103]"
  by (simp add: ascii_def)

lemma search_id_none: "search_id (ascii ''https://kwork.ru/projects/view/landing'') = None"
  by (simp add: ascii_eval is_digit_def digit_value_def digit_blocks_def)

text \<open>
  Claim C1 asks that the fallback identity is the same in any two runs on the same
  link. For the card above, whatever the hash function and the secret of the process,
  the identity extracted is the decimal of \<^verbatim>\<open>hash(link)\<close> under that process's secret:
  it varies from process to process as the built-in hash does.
\<close>

theorem fallback_id_is_process_hash:
  "map_option external_id (extract_project_data py_hash secret urljoin card_without_number)
     = Some (ascii (str_int (py_hash secret (ascii ''https://kwork.ru/projects/view/landing''))))"
  by (simp add: extract_project_data_def card_without_number_def extract_link_safe_def
        search_id_none Let_def)
    (simp add: ascii_def)

end
